theory Spec2Isabelle
  imports Main "HOL-Library.Word"
begin

section \<open>Machine types\<close>

text \<open>
  The kernel is an i386 kernel: the processor context holds the 32-bit registers
  \<open>eax\<close> .. \<open>edi\<close>, and \<open>uintptr_t\<close>, \<open>size_t\<close>, \<open>uint\<close> and \<open>int\<close> are all 32 bits wide.
  Values of these types are \<open>32 word\<close>: \<open>+\<close>, \<open>*\<close> and unary \<open>-\<close> wrap around as the C
  operators do, \<open>\<le>\<close> is the unsigned comparison, and a C \<open>int\<close> is read with \<open>sint\<close>.
\<close>

type_synonym uintptr_t = "32 word"
type_synonym size_t = "32 word"
type_synonym cint = "32 word"

section \<open>Address validator\<close>

text \<open>
  \<^verbatim>\<open>bool syscall_validate_ptr(uintptr_t ptr, size_t size)
  { return ptr >= 0x100000 && ptr + size >= 0x100000 && ptr + size >= ptr; }\<close>
\<close>

definition syscall_validate_ptr :: "uintptr_t \<Rightarrow> size_t \<Rightarrow> bool" where
  "syscall_validate_ptr ptr sz \<longleftrightarrow>
     ptr \<ge> 0x100000 \<and> ptr + sz \<ge> 0x100000 \<and> ptr + sz \<ge> ptr"

section \<open>Constants and types declared outside the modelled file\<close>

text \<open>
  The file includes \<^verbatim>\<open>libsystem/error.h\<close> and \<^verbatim>\<open>abi/Syscalls.h\<close>, which declare the error
  enumerators, the \<open>Syscall\<close> enumeration and the structures whose \<open>sizeof\<close> the handlers
  pass to the validator. Their values are parameters of the model, collected in one
  record. \<open>Syscall_signed\<close> says whether the compiler gives the enumeration type
  \<open>Syscall\<close> a signed or an unsigned representation: the cast \<^verbatim>\<open>(Syscall)context->eax\<close>
  reads the register accordingly. The enumerators index the table, so they are not
  negative, and comparing a \<open>Syscall\<close> with one of them is the comparison of the two
  integers in either representation.
\<close>

record abi =
  ERR_SUCCESS :: cint
  ERR_BAD_ADDRESS :: cint
  ERR_FUNCTION_NOT_IMPLEMENTED :: cint
  SYS_HANDLE_OPEN :: int
  Syscall_signed :: bool
  sizeof_Launchpad :: size_t
  sizeof_SelectEvent :: size_t
  sizeof_FileState :: size_t

definition to_Syscall :: "abi \<Rightarrow> 32 word \<Rightarrow> int" where
  "to_Syscall A w = (if Syscall_signed A then sint w else uint w)"

section \<open>Machine state and the tasking layer\<close>

text \<open>
  The state the handlers act on: the kernel's own data (task table, address spaces,
  handle tables, mailboxes; abstract, of type \<open>'k\<close>) and the memory that pointer
  arguments refer to, one cell per object, keyed by the object's address.
\<close>

record 'k machine =
  kernel :: 'k
  memory :: "uintptr_t \<Rightarrow> 32 word"

text \<open>
  The functions of \<^verbatim>\<open>tasking.h\<close> and \<^verbatim>\<open>clock.h\<close> that the modelled handlers call. Each
  takes the arguments the handler passes and the machine state, and returns its C result
  with the new state. The \<open>Task *\<close> argument \<^verbatim>\<open>sheduler_running()\<close> is read from the state
  by the function itself. The handler \<open>sys_process_free\<close> calls \<open>task_memory_free\<close> as a
  statement and drops whatever it returns.
\<close>

record 'k tasking =
  sheduler_running_id :: "'k machine \<Rightarrow> cint"
  clock_now :: "'k machine \<Rightarrow> 32 word"
  task_launch :: "uintptr_t \<Rightarrow> 'k machine \<Rightarrow> cint \<times> 'k machine"
  task_memory_free :: "32 word \<Rightarrow> 32 word \<Rightarrow> 'k machine \<Rightarrow> cint \<times> 'k machine"
  task_messaging_send :: "uintptr_t \<Rightarrow> 'k machine \<Rightarrow> cint \<times> 'k machine"
  task_fshandle_open ::
    "uintptr_t \<Rightarrow> uintptr_t \<Rightarrow> 32 word \<Rightarrow> 'k machine \<Rightarrow> cint \<times> 'k machine"
  task_fshandle_select ::
    "uintptr_t \<Rightarrow> uintptr_t \<Rightarrow> size_t \<Rightarrow> uintptr_t \<Rightarrow> 'k machine \<Rightarrow> cint \<times> 'k machine"
  task_fshandle_read ::
    "cint \<Rightarrow> uintptr_t \<Rightarrow> size_t \<Rightarrow> uintptr_t \<Rightarrow> 'k machine \<Rightarrow> cint \<times> 'k machine"
  task_fshandle_write ::
    "cint \<Rightarrow> uintptr_t \<Rightarrow> size_t \<Rightarrow> uintptr_t \<Rightarrow> 'k machine \<Rightarrow> cint \<times> 'k machine"
  task_fshandle_tell ::
    "cint \<Rightarrow> 32 word \<Rightarrow> uintptr_t \<Rightarrow> 'k machine \<Rightarrow> cint \<times> 'k machine"
  task_fshandle_stat :: "cint \<Rightarrow> uintptr_t \<Rightarrow> 'k machine \<Rightarrow> cint \<times> 'k machine"
  task_fshandle_connect :: "uintptr_t \<Rightarrow> uintptr_t \<Rightarrow> 'k machine \<Rightarrow> cint \<times> 'k machine"

section \<open>Handlers\<close>

subsection \<open>Process\<close>

text \<open>
  \<^verbatim>\<open>int sys_process_launch(Launchpad *launchpad)
  { if (!syscall_validate_ptr((uintptr_t)launchpad, sizeof(Launchpad)))
      { return -ERR_BAD_ADDRESS; }
    return task_launch(sheduler_running(), launchpad); }\<close>
\<close>

definition sys_process_launch ::
  "abi \<Rightarrow> 'k tasking \<Rightarrow> uintptr_t \<Rightarrow> 'k machine \<Rightarrow> cint \<times> 'k machine" where
  "sys_process_launch A K launchpad s =
     (if \<not> syscall_validate_ptr launchpad (sizeof_Launchpad A)
      then (- ERR_BAD_ADDRESS A, s)
      else task_launch K launchpad s)"

text \<open>
  \<^verbatim>\<open>int sys_process_free(uint addr, uint count)
  { task_memory_free(sheduler_running(), addr, count); return 0; }\<close>
\<close>

definition sys_process_free ::
  "'k tasking \<Rightarrow> 32 word \<Rightarrow> 32 word \<Rightarrow> 'k machine \<Rightarrow> cint \<times> 'k machine" where
  "sys_process_free K addr count s =
     (let s' = snd (task_memory_free K addr count s) in (0, s'))"

subsection \<open>Messaging and system information\<close>

text \<open>
  \<^verbatim>\<open>int sys_messaging_send(message_t *event)
  { return task_messaging_send(sheduler_running(), event); }\<close>
\<close>

definition sys_messaging_send ::
  "'k tasking \<Rightarrow> uintptr_t \<Rightarrow> 'k machine \<Rightarrow> cint \<times> 'k machine" where
  "sys_messaging_send K event s = task_messaging_send K event s"

text \<open>
  \<^verbatim>\<open>int sys_system_get_time(TimeStamp *timestamp)
  { *timestamp = clock_now(); return -ERR_SUCCESS; }\<close>
\<close>

definition sys_system_get_time ::
  "abi \<Rightarrow> 'k tasking \<Rightarrow> uintptr_t \<Rightarrow> 'k machine \<Rightarrow> cint \<times> 'k machine" where
  "sys_system_get_time A K timestamp s =
     (- ERR_SUCCESS A, s\<lparr>memory := (memory s)(timestamp := clock_now K s)\<rparr>)"

subsection \<open>Handles\<close>

text \<open>
  On i386 \<open>sizeof(int)\<close> and \<open>sizeof(size_t)\<close> are 4. The products
  \<^verbatim>\<open>sizeof(int) * count\<close> and \<^verbatim>\<open>sizeof(SelectEvent) * count\<close> are \<open>size_t\<close> products: they wrap
  modulo \<open>2 ^ 32\<close>. Every handler of this group returns \<^verbatim>\<open>ERR_BAD_ADDRESS\<close>, not negated, when
  a check fails.

  \<^verbatim>\<open>int sys_handle_open(int *handle, const char *path, OpenFlag flags)
  { if (!syscall_validate_ptr((uintptr_t)handle, sizeof(int)))
      { return ERR_BAD_ADDRESS; }
    return task_fshandle_open(sheduler_running(), handle, path, flags); }\<close>

  \<^verbatim>\<open>int sys_handle_select(int *handles, SelectEvent *events, size_t count, int *selected)
  { if (!syscall_validate_ptr((uintptr_t)handles, sizeof(int) * count) ||
        !syscall_validate_ptr((uintptr_t)events, sizeof(SelectEvent) * count) ||
        !syscall_validate_ptr((uintptr_t)selected, sizeof(int)))
      { return ERR_BAD_ADDRESS; }
    return task_fshandle_select(sheduler_running(), handles, events, count, selected); }\<close>

  \<open>sys_handle_read\<close> and \<open>sys_handle_write\<close> check the buffer over \<open>size\<close> bytes and the
  count pointer over \<open>sizeof(size_t)\<close>; \<open>sys_handle_tell\<close> checks the offset pointer over
  \<open>sizeof(int)\<close>; \<open>sys_handle_stat\<close> checks the state pointer over \<open>sizeof(FileState)\<close>.
\<close>

definition sys_handle_open ::
  "abi \<Rightarrow> 'k tasking \<Rightarrow> uintptr_t \<Rightarrow> uintptr_t \<Rightarrow> 32 word \<Rightarrow> 'k machine
     \<Rightarrow> cint \<times> 'k machine" where
  "sys_handle_open A K handle path flags s =
     (if \<not> syscall_validate_ptr handle 4
      then (ERR_BAD_ADDRESS A, s)
      else task_fshandle_open K handle path flags s)"

definition sys_handle_select ::
  "abi \<Rightarrow> 'k tasking \<Rightarrow> uintptr_t \<Rightarrow> uintptr_t \<Rightarrow> size_t \<Rightarrow> uintptr_t \<Rightarrow> 'k machine
     \<Rightarrow> cint \<times> 'k machine" where
  "sys_handle_select A K handles events count selected s =
     (if \<not> syscall_validate_ptr handles (4 * count) \<or>
         \<not> syscall_validate_ptr events (sizeof_SelectEvent A * count) \<or>
         \<not> syscall_validate_ptr selected 4
      then (ERR_BAD_ADDRESS A, s)
      else task_fshandle_select K handles events count selected s)"

definition sys_handle_read ::
  "abi \<Rightarrow> 'k tasking \<Rightarrow> cint \<Rightarrow> uintptr_t \<Rightarrow> size_t \<Rightarrow> uintptr_t \<Rightarrow> 'k machine
     \<Rightarrow> cint \<times> 'k machine" where
  "sys_handle_read A K handle buffer sz readed s =
     (if \<not> syscall_validate_ptr buffer sz \<or> \<not> syscall_validate_ptr readed 4
      then (ERR_BAD_ADDRESS A, s)
      else task_fshandle_read K handle buffer sz readed s)"

definition sys_handle_write ::
  "abi \<Rightarrow> 'k tasking \<Rightarrow> cint \<Rightarrow> uintptr_t \<Rightarrow> size_t \<Rightarrow> uintptr_t \<Rightarrow> 'k machine
     \<Rightarrow> cint \<times> 'k machine" where
  "sys_handle_write A K handle buffer sz written s =
     (if \<not> syscall_validate_ptr buffer sz \<or> \<not> syscall_validate_ptr written 4
      then (ERR_BAD_ADDRESS A, s)
      else task_fshandle_write K handle buffer sz written s)"

definition sys_handle_tell ::
  "abi \<Rightarrow> 'k tasking \<Rightarrow> cint \<Rightarrow> 32 word \<Rightarrow> uintptr_t \<Rightarrow> 'k machine
     \<Rightarrow> cint \<times> 'k machine" where
  "sys_handle_tell A K handle whence offset s =
     (if \<not> syscall_validate_ptr offset 4
      then (ERR_BAD_ADDRESS A, s)
      else task_fshandle_tell K handle whence offset s)"

definition sys_handle_stat ::
  "abi \<Rightarrow> 'k tasking \<Rightarrow> cint \<Rightarrow> uintptr_t \<Rightarrow> 'k machine \<Rightarrow> cint \<times> 'k machine" where
  "sys_handle_stat A K handle state s =
     (if \<not> syscall_validate_ptr state (sizeof_FileState A)
      then (ERR_BAD_ADDRESS A, s)
      else task_fshandle_stat K handle state s)"

text \<open>
  \<^verbatim>\<open>int sys_handle_connect(int *handle, const char *path)
  { return task_fshandle_connect(sheduler_running(), handle, path); }\<close>
\<close>

definition sys_handle_connect ::
  "'k tasking \<Rightarrow> uintptr_t \<Rightarrow> uintptr_t \<Rightarrow> 'k machine \<Rightarrow> cint \<times> 'k machine" where
  "sys_handle_connect K handle path s = task_fshandle_connect K handle path s"

section \<open>Dispatcher\<close>

text \<open>
  \<^verbatim>\<open>typedef int (*syscall_handler_t)(int, int, int, int, int);\<close>
  A handler receives the five argument registers by value and the machine state; it
  never receives the processor context. An entry of a table is \<open>None\<close> where the C array
  holds \<open>NULL\<close>.
\<close>

type_synonym 'k syscall_handler_t =
  "cint \<Rightarrow> cint \<Rightarrow> cint \<Rightarrow> cint \<Rightarrow> cint \<Rightarrow> 'k machine \<Rightarrow> cint \<times> 'k machine"

text \<open>
  The table \<^verbatim>\<open>static int (*syscalls[__SYSCALL_COUNT])()\<close>, entry by entry in the order of
  its 47 designated initialisers, taken as the order of the enumeration. Every
  designator is assigned. A handler is stored as a function of unspecified arguments and
  called with the five registers: it reads as many of them as it has parameters. The
  handlers modelled above stand in their places; each of the others is the value of the
  parameter \<open>other\<close> at its name.
\<close>

definition syscalls ::
  "abi \<Rightarrow> 'k tasking \<Rightarrow> (string \<Rightarrow> 'k syscall_handler_t)
     \<Rightarrow> 'k syscall_handler_t option list" where
  "syscalls A K other =
     [Some (other ''sys_process_this''),
      Some (\<lambda>a b c d e. sys_process_launch A K a),
      Some (other ''sys_process_exit''),
      Some (other ''sys_process_cancel''),
      Some (other ''sys_process_sleep''),
      Some (other ''sys_process_wakeup''),
      Some (other ''sys_process_wait''),
      Some (other ''sys_process_get_cwd''),
      Some (other ''sys_process_set_cwd''),
      Some (other ''sys_process_map''),
      Some (other ''sys_process_unmap''),
      Some (other ''sys_process_alloc''),
      Some (\<lambda>a b c d e. sys_process_free K a b),
      Some (other ''sys_shared_memory_alloc''),
      Some (other ''sys_shared_memory_acquire''),
      Some (other ''sys_shared_memory_release''),
      Some (\<lambda>a b c d e. sys_messaging_send K a),
      Some (other ''sys_messaging_broadcast''),
      Some (other ''sys_messaging_request''),
      Some (other ''sys_messaging_receive''),
      Some (other ''sys_messaging_respond''),
      Some (other ''sys_messaging_subscribe''),
      Some (other ''sys_messaging_unsubscribe''),
      Some (other ''sys_filesystem_mkdir''),
      Some (other ''sys_filesystem_mkpipe''),
      Some (other ''sys_filesystem_link''),
      Some (other ''sys_filesystem_unlink''),
      Some (other ''sys_filesystem_rename''),
      Some (other ''sys_system_get_info''),
      Some (other ''sys_system_get_status''),
      Some (\<lambda>a b c d e. sys_system_get_time A K a),
      Some (other ''sys_system_get_ticks''),
      Some (\<lambda>a b c d e. sys_handle_open A K a b c),
      Some (other ''sys_handle_close''),
      Some (\<lambda>a b c d e. sys_handle_select A K a b c d),
      Some (\<lambda>a b c d e. sys_handle_read A K a b c d),
      Some (\<lambda>a b c d e. sys_handle_write A K a b c d),
      Some (other ''sys_handle_call''),
      Some (other ''sys_handle_seek''),
      Some (\<lambda>a b c d e. sys_handle_tell A K a b c),
      Some (\<lambda>a b c d e. sys_handle_stat A K a b),
      Some (\<lambda>a b c d e. sys_handle_connect K a b),
      Some (other ''sys_handle_accept''),
      Some (other ''sys_handle_send''),
      Some (other ''sys_handle_receive''),
      Some (other ''sys_handle_payload''),
      Some (other ''sys_handle_discard'')]"

record processor_context_t =
  eax :: "32 word"
  ebx :: "32 word"
  ecx :: "32 word"
  edx :: "32 word"
  esi :: "32 word"
  edi :: "32 word"

text \<open>
  The lines handed to the logger. \<open>Error_not_implemented\<close> and \<open>Error_unknown\<close> carry the
  identifier and the running process; \<open>Info_context\<close> the five argument registers;
  \<open>Info_returned\<close> the name read from \<^verbatim>\<open>syscall_names\<close>, the five argument registers and
  the value passed to \<^verbatim>\<open>error_to_string\<close>.
\<close>

datatype log_line =
    Error_not_implemented int cint
  | Error_unknown int cint
  | Info_context "32 word" "32 word" "32 word" "32 word" "32 word"
  | Info_returned string "32 word" "32 word" "32 word" "32 word" "32 word" "32 word"

fun is_returned :: "log_line \<Rightarrow> bool" where
  "is_returned (Info_returned n a b c d e r) = True"
| "is_returned l = False"

text \<open>
  \<^verbatim>\<open>syscall_handler_t syscall_get_handler(Syscall syscall)
  { if (syscall >= 0 && syscall < __SYSCALL_COUNT)
      { if ((syscall_handler_t)syscalls[syscall] == NULL)
          { logger_error("Syscall not implemented ID=%d call by PROCESS=%d.", ...); }
        return (syscall_handler_t)syscalls[syscall]; }
    else
      { logger_error("Unknow syscall ID=%d call by PROCESS=%d.", ...); return NULL; } }\<close>

  The table is the parameter \<open>tbl\<close>, and \<open>__SYSCALL_COUNT\<close> is its length.
\<close>

definition syscall_get_handler ::
  "'k syscall_handler_t option list \<Rightarrow> 'k tasking \<Rightarrow> int \<Rightarrow> 'k machine
     \<Rightarrow> 'k syscall_handler_t option \<times> log_line list" where
  "syscall_get_handler tbl K syscall s =
     (if syscall \<ge> 0 \<and> syscall < int (length tbl) then
        (case tbl ! nat syscall of
           None \<Rightarrow> (None, [Error_not_implemented syscall (sheduler_running_id K s)])
         | Some h \<Rightarrow> (Some h, []))
      else (None, [Error_unknown syscall (sheduler_running_id K s)]))"

text \<open>
  \<^verbatim>\<open>static const char *syscall_names[] = {SYSCALL_LIST(SYSCALL_NAMES_ENTRY)};\<close>
  The array of names is a parameter. The dispatcher reads \<^verbatim>\<open>syscall_names[syscall]\<close> with no
  test of the index. Inside the array the read gives the name; outside it the read is
  out of bounds, which C leaves undefined: the model stops there with a fault.
\<close>

datatype fault = Names_out_of_bounds int

definition read_syscall_name :: "string list \<Rightarrow> int \<Rightarrow> fault + string" where
  "read_syscall_name syscall_names syscall =
     (if 0 \<le> syscall \<and> syscall < int (length syscall_names)
      then Inr (syscall_names ! nat syscall)
      else Inl (Names_out_of_bounds syscall))"

text \<open>
  \<^verbatim>\<open>void syscall_dispatcher(processor_context_t *context)
  { Syscall syscall = (Syscall)context->eax;
    syscall_handler_t handler = syscall_get_handler(syscall);
    if (handler != NULL)
      { context->eax = handler(context->ebx, context->ecx, context->edx,
                               context->esi, context->edi); }
    else
      { logger_info("context: EBX=%08x, ...", ...);
        context->eax = -ERR_FUNCTION_NOT_IMPLEMENTED; }
    if (syscall >= SYS_HANDLE_OPEN && context->eax != ERR_SUCCESS)
      { logger_info("Syscall %s(...) returned %s", syscall_names[syscall], ...,
                    error_to_string(context->eax)); }
    if (syscall < SYS_HANDLE_OPEN && (int)context->eax < 0)
      { logger_info("Syscall %s(...) returned %s", syscall_names[syscall], ...,
                    error_to_string(-context->eax)); } }\<close>

  The result is the context and the machine state as the run leaves them, the lines
  logged, and the fault at which the run stopped, if any. After a fault the context,
  the state and the log are those reached before the out-of-bounds read; what the
  program does from there on is undefined.
\<close>

definition syscall_dispatcher ::
  "abi \<Rightarrow> string list \<Rightarrow> 'k syscall_handler_t option list \<Rightarrow> 'k tasking \<Rightarrow>
     'a processor_context_t_scheme \<Rightarrow> 'k machine \<Rightarrow>
     'a processor_context_t_scheme \<times> 'k machine \<times> log_line list \<times> fault option" where
  "syscall_dispatcher A syscall_names tbl K ctx s =
     (let syscall = to_Syscall A (eax ctx);
          (handler, log1) = syscall_get_handler tbl K syscall s;
          (ctx1, s1, log2) =
            (case handler of
               Some h \<Rightarrow>
                 (let (r, s') = h (ebx ctx) (ecx ctx) (edx ctx) (esi ctx) (edi ctx) s
                  in (ctx\<lparr>eax := r\<rparr>, s', []))
             | None \<Rightarrow>
                 (ctx\<lparr>eax := - ERR_FUNCTION_NOT_IMPLEMENTED A\<rparr>, s,
                  [Info_context (ebx ctx) (ecx ctx) (edx ctx) (esi ctx) (edi ctx)]));
          log3 =
            (if syscall \<ge> SYS_HANDLE_OPEN A \<and> eax ctx1 \<noteq> ERR_SUCCESS A
             then (case read_syscall_name syscall_names syscall of
                     Inl f \<Rightarrow> Inl f
                   | Inr name \<Rightarrow>
                       Inr [Info_returned name (ebx ctx1) (ecx ctx1) (edx ctx1) (esi ctx1)
                              (edi ctx1) (eax ctx1)])
             else Inr []);
          log4 =
            (if syscall < SYS_HANDLE_OPEN A \<and> sint (eax ctx1) < 0
             then (case read_syscall_name syscall_names syscall of
                     Inl f \<Rightarrow> Inl f
                   | Inr name \<Rightarrow>
                       Inr [Info_returned name (ebx ctx1) (ecx ctx1) (edx ctx1) (esi ctx1)
                              (edi ctx1) (- eax ctx1)])
             else Inr [])
      in (ctx1, s1,
          (case log3 of
             Inl f \<Rightarrow> (log1 @ log2, Some f)
           | Inr l3 \<Rightarrow>
               (case log4 of
                  Inl f \<Rightarrow> (log1 @ log2 @ l3, Some f)
                | Inr l4 \<Rightarrow> (log1 @ log2 @ l3 @ l4, None)))))"

section \<open>Sample values\<close>

text \<open>
  Concrete values at which the theorems below are instantiated. The error enumerators
  are small positive numbers and \<open>SYS_HANDLE_OPEN\<close> is 32, the position of its designator
  in the table. The sample tasking layer counts its calls in the kernel component of the
  state, so a state that comes back unchanged shows that none of its functions ran; the
  handlers that are not modelled count likewise. The sample names are the designators of
  the table in order, 47 of them.
\<close>

definition sample_abi :: abi where
  "sample_abi =
     \<lparr>ERR_SUCCESS = 0, ERR_BAD_ADDRESS = 1, ERR_FUNCTION_NOT_IMPLEMENTED = 2,
      SYS_HANDLE_OPEN = 32, Syscall_signed = False,
      sizeof_Launchpad = 64, sizeof_SelectEvent = 4, sizeof_FileState = 16\<rparr>"

definition counted :: "cint \<Rightarrow> nat machine \<Rightarrow> cint \<times> nat machine" where
  "counted r s = (r, s\<lparr>kernel := Suc (kernel s)\<rparr>)"

definition sample_tasking :: "nat tasking" where
  "sample_tasking =
     \<lparr>sheduler_running_id = (\<lambda>s. 7),
      clock_now = (\<lambda>s. 1000),
      task_launch = (\<lambda>l. counted 8),
      task_memory_free = (\<lambda>a c. counted (- 1)),
      task_messaging_send = (\<lambda>e. counted 0),
      task_fshandle_open = (\<lambda>h p f. counted 0),
      task_fshandle_select = (\<lambda>h e c x. counted 0),
      task_fshandle_read = (\<lambda>h b n r. counted 0),
      task_fshandle_write = (\<lambda>h b n w. counted 0),
      task_fshandle_tell = (\<lambda>h w off. counted 0),
      task_fshandle_stat = (\<lambda>h st. counted 0),
      task_fshandle_connect = (\<lambda>h p. counted 0)\<rparr>"

definition sample_machine :: "nat machine" where
  "sample_machine = \<lparr>kernel = 0, memory = (\<lambda>a. 0)\<rparr>"

definition sample_other :: "string \<Rightarrow> nat syscall_handler_t" where
  "sample_other name = (\<lambda>a b c d e. counted 0)"

definition sample_table :: "nat syscall_handler_t option list" where
  "sample_table = syscalls sample_abi sample_tasking sample_other"

definition sample_names :: "string list" where
  "sample_names =
     [''SYS_PROCESS_THIS'', ''SYS_PROCESS_LAUNCH'', ''SYS_PROCESS_EXIT'',
      ''SYS_PROCESS_CANCEL'', ''SYS_PROCESS_SLEEP'', ''SYS_PROCESS_WAKEUP'',
      ''SYS_PROCESS_WAIT'', ''SYS_PROCESS_GET_CWD'', ''SYS_PROCESS_SET_CWD'',
      ''SYS_PROCESS_MAP'', ''SYS_PROCESS_UNMAP'', ''SYS_PROCESS_ALLOC'',
      ''SYS_PROCESS_FREE'', ''SYS_SHARED_MEMORY_ALLOC'', ''SYS_SHARED_MEMORY_ACQUIRE'',
      ''SYS_SHARED_MEMORY_RELEASE'', ''SYS_MESSAGING_SEND'', ''SYS_MESSAGING_BROADCAST'',
      ''SYS_MESSAGING_REQUEST'', ''SYS_MESSAGING_RECEIVE'', ''SYS_MESSAGING_RESPOND'',
      ''SYS_MESSAGING_SUBSCRIBE'', ''SYS_MESSAGING_UNSUBSCRIBE'', ''SYS_FILESYSTEM_MKDIR'',
      ''SYS_FILESYSTEM_MKPIPE'', ''SYS_FILESYSTEM_LINK'', ''SYS_FILESYSTEM_UNLINK'',
      ''SYS_FILESYSTEM_RENAME'', ''SYS_SYSTEM_GET_INFO'', ''SYS_SYSTEM_GET_STATUS'',
      ''SYS_SYSTEM_GET_TIME'', ''SYS_SYSTEM_GET_TICKS'', ''SYS_HANDLE_OPEN'',
      ''SYS_HANDLE_CLOSE'', ''SYS_HANDLE_SELECT'', ''SYS_HANDLE_READ'', ''SYS_HANDLE_WRITE'',
      ''SYS_HANDLE_CALL'', ''SYS_HANDLE_SEEK'', ''SYS_HANDLE_TELL'', ''SYS_HANDLE_STAT'',
      ''SYS_HANDLE_CONNECT'', ''SYS_HANDLE_ACCEPT'', ''SYS_HANDLE_SEND'',
      ''SYS_HANDLE_RECEIVE'', ''SYS_HANDLE_PAYLOAD'', ''SYS_HANDLE_DISCARD'']"

definition sample_context :: "32 word \<Rightarrow> 32 word \<Rightarrow> processor_context_t" where
  "sample_context n p = \<lparr>eax = n, ebx = p, ecx = 0, edx = 0, esi = 0, edi = 0\<rparr>"

section \<open>Properties of the address validator\<close>

text \<open>
  The validator accepts exactly the ranges that start at or above the watermark and
  whose end does not wrap: the third conjunct of the source is the no-overflow test, and
  the second then follows from the first.
\<close>

lemma validate_no_wrap:
  "syscall_validate_ptr ptr sz \<longleftrightarrow> 0x100000 \<le> unat ptr \<and> unat ptr + unat sz < 2 ^ 32"
proof -
  have nw: "ptr \<le> ptr + sz \<longleftrightarrow> unat ptr + unat sz < 2 ^ 32"
    using no_olen_add_nat [of ptr sz] by simp
  have w: "0x100000 \<le> ptr \<longleftrightarrow> 0x100000 \<le> unat ptr"
    by (simp add: word_le_nat_alt)
  have tr: "0x100000 \<le> ptr \<Longrightarrow> ptr \<le> ptr + sz \<Longrightarrow> 0x100000 \<le> ptr + sz"
    by (rule order_trans)
  show ?thesis
    unfolding syscall_validate_ptr_def using nw w tr by blast
qed

lemma validate_below_watermark: "ptr < 0x100000 \<Longrightarrow> \<not> syscall_validate_ptr ptr sz"
  by (simp add: syscall_validate_ptr_def not_le)

lemma sint_neg_of_pos: "0 < sint (e :: 32 word) \<Longrightarrow> sint (- e) < 0"
proof -
  assume p: "0 < sint e"
  have b: "sint e < 2 ^ 31"
    using sint_lt [of e] by simp
  have "sint (- e) = signed_take_bit 31 (- sint e)"
    by (simp add: sint_word_minus)
  also have "\<dots> = - sint e"
    using p b by (simp add: signed_take_bit_int_eq_self)
  finally show ?thesis
    using p by simp
qed

text \<open>
  C1, as the code has it. A pair (base, length) is accepted if and only if base is at or
  above the watermark 0x100000, base + length does not wrap around the 32-bit address
  type, and base + length is at or above the watermark. At the boundary, base = 0x100000
  is accepted exactly for the lengths up to 0xFFEFFFFF (those whose end does not wrap),
  and base = 0x100000 - 1 is rejected for every length.
\<close>

theorem validate_ptr_characterisation:
  "(syscall_validate_ptr base len \<longleftrightarrow>
      0x100000 \<le> base \<and> unat base + unat len < 2 ^ 32 \<and> 0x100000 \<le> unat base + unat len) \<and>
   (syscall_validate_ptr 0x100000 len \<longleftrightarrow> len \<le> 0xFFEFFFFF) \<and>
   \<not> syscall_validate_ptr (0x100000 - 1) len"
proof -
  have a: "syscall_validate_ptr base len \<longleftrightarrow>
      0x100000 \<le> base \<and> unat base + unat len < 2 ^ 32 \<and> 0x100000 \<le> unat base + unat len"
    by (auto simp add: validate_no_wrap word_le_nat_alt)
  have b: "syscall_validate_ptr 0x100000 len \<longleftrightarrow> len \<le> 0xFFEFFFFF"
    by (simp add: validate_no_wrap word_le_nat_alt) arith
  have c: "\<not> syscall_validate_ptr (0x100000 - 1) len"
    by (simp add: validate_no_wrap)
  from a b c show ?thesis
    by blast
qed

text \<open>
  C1 as stated says that base = 0x100000 is accepted for every length. The length
  0xFFFFFFFF makes the end wrap to 0xFFFFF, and the pair is rejected.
\<close>

theorem validate_ptr_watermark_counterexample:
  "\<not> syscall_validate_ptr 0x100000 0xFFFFFFFF"
  by (simp add: syscall_validate_ptr_def)

text \<open>
  C9. The validator is monotone in the length: a range accepted with length \<open>sz'\<close> is
  accepted with every shorter length \<open>sz\<close>; and every zero-length range whose base is at
  or above 0x100000 is accepted.
\<close>

theorem validate_ptr_monotone:
  "(sz \<le> sz' \<and> syscall_validate_ptr ptr sz' \<longrightarrow> syscall_validate_ptr ptr sz) \<and>
   (0x100000 \<le> ptr \<longrightarrow> syscall_validate_ptr ptr 0)"
proof -
  have m: "syscall_validate_ptr ptr sz" if le: "sz \<le> sz'" and v: "syscall_validate_ptr ptr sz'"
  proof -
    from le have "unat sz \<le> unat sz'"
      by (simp add: word_le_nat_alt)
    with v show ?thesis
      by (simp add: validate_no_wrap)
  qed
  have z: "syscall_validate_ptr ptr 0" if "0x100000 \<le> ptr"
    using that by (simp add: syscall_validate_ptr_def)
  from m z show ?thesis
    by blast
qed

theorem validate_ptr_monotone_witness:
  "(4 :: 32 word) \<le> 8 \<and> syscall_validate_ptr 0x200000 8 \<and> syscall_validate_ptr 0x200000 4 \<and>
   (0x100000 :: 32 word) \<le> 0x200000 \<and> syscall_validate_ptr 0x200000 0"
proof -
  have h: "(4 :: 32 word) \<le> 8 \<and> syscall_validate_ptr 0x200000 8"
    by (simp add: syscall_validate_ptr_def)
  have w: "(0x100000 :: 32 word) \<le> 0x200000"
    by simp
  from validate_ptr_monotone [of 4 8 "0x200000"] h w show ?thesis
    by blast
qed

section \<open>Sample runs\<close>

lemma validate_null: "\<not> syscall_validate_ptr 0 sz"
  by (simp add: syscall_validate_ptr_def)

lemma sample_launch_valid:
  "sys_process_launch sample_abi sample_tasking 0x200000 sample_machine =
     (8, sample_machine\<lparr>kernel := 1\<rparr>)"
  by (simp add: sys_process_launch_def sample_abi_def sample_tasking_def counted_def
      sample_machine_def syscall_validate_ptr_def)

lemma sample_select_valid:
  "sys_handle_select sample_abi sample_tasking 0x200000 0x300000 2 0x400000 sample_machine =
     (0, sample_machine\<lparr>kernel := 1\<rparr>)"
  by (simp add: sys_handle_select_def syscall_validate_ptr_def sample_abi_def
      sample_tasking_def counted_def sample_machine_def)

lemma sample_lengths: "length sample_table = 47 \<and> length sample_names = 47"
  by (simp add: sample_table_def syscalls_def sample_names_def)

lemma sample_entries:
  "sample_table ! 1 = Some (\<lambda>a b c d e. sys_process_launch sample_abi sample_tasking a) \<and>
   sample_table ! 5 = Some (sample_other ''sys_process_wakeup'') \<and>
   sample_table ! 32 = Some (\<lambda>a b c d e. sys_handle_open sample_abi sample_tasking a b c) \<and>
   sample_names ! 1 = ''SYS_PROCESS_LAUNCH'' \<and>
   sample_names ! 32 = ''SYS_HANDLE_OPEN''"
  by (simp add: sample_table_def syscalls_def sample_names_def)

lemma sample_dispatch_open:
  "syscall_dispatcher sample_abi sample_names sample_table sample_tasking (sample_context 32 0)
     sample_machine =
     (sample_context 1 0, sample_machine, [Info_returned ''SYS_HANDLE_OPEN'' 0 0 0 0 0 1], None)"
  by (simp add: syscall_dispatcher_def syscall_get_handler_def read_syscall_name_def
      to_Syscall_def Let_def sample_table_def syscalls_def sample_names_def
      sample_abi_def sample_context_def sys_handle_open_def syscall_validate_ptr_def)

lemma sample_dispatch_launch:
  "syscall_dispatcher sample_abi sample_names sample_table sample_tasking (sample_context 1 0)
     sample_machine =
     (sample_context (- 1) 0, sample_machine,
      [Info_returned ''SYS_PROCESS_LAUNCH'' 0 0 0 0 0 1], None)"
  by (simp add: syscall_dispatcher_def syscall_get_handler_def read_syscall_name_def
      to_Syscall_def Let_def sample_table_def syscalls_def sample_names_def
      sample_abi_def sample_context_def sys_process_launch_def syscall_validate_ptr_def)

lemma sample_dispatch_launch_valid:
  "syscall_dispatcher sample_abi sample_names sample_table sample_tasking
     (sample_context 1 0x200000) sample_machine =
     (sample_context 8 0x200000, sample_machine\<lparr>kernel := 1\<rparr>, [], None)"
  by (simp add: syscall_dispatcher_def syscall_get_handler_def read_syscall_name_def
      to_Syscall_def Let_def sample_table_def syscalls_def sample_names_def
      sample_abi_def sample_context_def sys_process_launch_def syscall_validate_ptr_def
      sample_tasking_def counted_def sample_machine_def)

text \<open>
  Identifier 1000 is beyond the 47 entries. No handler is found and \<open>eax\<close> receives the
  not-implemented code; the identifier is at or above \<open>SYS_HANDLE_OPEN\<close> and the code is
  not \<open>ERR_SUCCESS\<close>, so the first logging statement reads \<^verbatim>\<open>syscall_names[1000]\<close>.
\<close>

lemma sample_dispatch_unknown:
  "syscall_dispatcher sample_abi sample_names sample_table sample_tasking
     (sample_context 1000 0) sample_machine =
     (sample_context (- 2) 0, sample_machine,
      [Error_unknown 1000 7, Info_context 0 0 0 0 0], Some (Names_out_of_bounds 1000))"
  by (simp add: syscall_dispatcher_def syscall_get_handler_def read_syscall_name_def
      to_Syscall_def Let_def sample_table_def syscalls_def sample_names_def
      sample_abi_def sample_context_def sample_tasking_def)

section \<open>Properties of the handlers\<close>

text \<open>
  C5. If \<open>sys_process_launch\<close> is called with a launchpad pointer that fails address
  validation (for example one below the watermark), it returns \<open>-ERR_BAD_ADDRESS\<close> and the
  machine state is the one it was given, whatever the tasking layer is: \<open>task_launch\<close>
  is not invoked and no task is created.
\<close>

theorem launch_bad_address:
  "launchpad < 0x100000 \<or> \<not> syscall_validate_ptr launchpad (sizeof_Launchpad A) \<Longrightarrow>
   sys_process_launch A K launchpad s = (- ERR_BAD_ADDRESS A, s)"
  using validate_below_watermark [of launchpad "sizeof_Launchpad A"]
  by (auto simp add: sys_process_launch_def)

text \<open>
  With the counting tasking layer, a launchpad at 0x1000 leaves the call counter at 0,
  where a valid launchpad at 0x200000 raises it to 1.
\<close>

theorem launch_bad_address_witness:
  "(0x1000 :: 32 word) < 0x100000 \<and>
   sys_process_launch sample_abi sample_tasking 0x1000 sample_machine = (- 1, sample_machine) \<and>
   kernel (snd (sys_process_launch sample_abi sample_tasking 0x1000 sample_machine)) = 0 \<and>
   kernel (snd (sys_process_launch sample_abi sample_tasking 0x200000 sample_machine)) = 1"
proof -
  have h: "(0x1000 :: 32 word) < 0x100000"
    by simp
  from h have
    "sys_process_launch sample_abi sample_tasking 0x1000 sample_machine =
       (- ERR_BAD_ADDRESS sample_abi, sample_machine)"
    by (intro launch_bad_address disjI1)
  then show ?thesis
    using h by (simp add: sample_launch_valid) (simp add: sample_abi_def sample_machine_def)
qed

text \<open>
  What \<open>sys_handle_select\<close> does when one of its three checks fails: it returns
  \<open>ERR_BAD_ADDRESS\<close> and the machine state is unchanged, so the underlying
  \<open>task_fshandle_select\<close> is not invoked. The checks are those of the source, on the
  \<open>size_t\<close> products.
\<close>

lemma select_bad_address:
  "\<not> syscall_validate_ptr handles (4 * count) \<or>
   \<not> syscall_validate_ptr events (sizeof_SelectEvent A * count) \<or>
   \<not> syscall_validate_ptr selected 4 \<Longrightarrow>
   sys_handle_select A K handles events count selected s = (ERR_BAD_ADDRESS A, s)"
  by (simp add: sys_handle_select_def)

lemma select_bad_address_sample:
  "\<not> syscall_validate_ptr 0x10 4 \<and>
   sys_handle_select sample_abi sample_tasking 0x200000 0x300000 2 0x10 sample_machine =
     (1, sample_machine) \<and>
   sys_handle_select sample_abi sample_tasking 0x200000 0x300000 2 0x400000 sample_machine =
     (0, sample_machine\<lparr>kernel := 1\<rparr>)"
proof -
  have h: "\<not> syscall_validate_ptr 0x10 4"
    by (simp add: syscall_validate_ptr_def)
  have e: "ERR_BAD_ADDRESS sample_abi = 1"
    by (simp add: sample_abi_def)
  from h have
    "sys_handle_select sample_abi sample_tasking 0x200000 0x300000 2 0x10 sample_machine =
       (ERR_BAD_ADDRESS sample_abi, sample_machine)"
    by (intro select_bad_address disjI2)
  with h e show ?thesis
    by (simp add: sample_select_valid)
qed

lemma mult_2p30_bound: "unat (sz * 0x40000000 :: 32 word) \<le> 0xC0000000"
proof -
  have "unat (sz * 0x40000000) = (unat sz * 2 ^ 30) mod 2 ^ 32"
    by (simp add: unat_word_ariths)
  also have "\<dots> = 2 ^ 30 * (unat sz mod 4)"
  proof -
    have "(2 ^ 30 * unat sz) mod (2 ^ 30 * 4) = 2 ^ 30 * (unat sz mod 4)"
      by (rule mult_mod_right [symmetric])
    then show ?thesis
      by (simp add: mult.commute)
  qed
  also have "\<dots> \<le> 2 ^ 30 * 3"
  proof -
    have "unat sz mod 4 \<le> 3"
      by arith
    then show ?thesis
      by (rule mult_le_mono2)
  qed
  finally show ?thesis
    by simp
qed

text \<open>
  C6 asks that select validate the handles array over count * sizeof(int) bytes and the
  events array over count * sizeof(SelectEvent) bytes, and return a bad-address error
  without invoking the underlying select when a check fails. The code computes the two
  byte lengths in \<open>size_t\<close>, where they wrap. With \<open>count = 0x40000000\<close> the handles array
  spans \<open>2 ^ 32\<close> bytes from 0x200000, past the end of the address space, which the
  validator would reject; the product passed to it is 0, the three checks pass whatever
  \<open>sizeof(SelectEvent)\<close> is, and \<open>task_fshandle_select\<close> runs with that count.
\<close>

theorem select_length_overflow:
  "2 ^ 32 \<le> unat (0x200000 :: 32 word) + 4 * unat (0x40000000 :: 32 word) \<and>
   (4 :: 32 word) * 0x40000000 = 0 \<and>
   sys_handle_select A K 0x200000 0x300000 0x40000000 0x400000 s =
     task_fshandle_select K 0x200000 0x300000 0x40000000 0x400000 s"
proof -
  have e: "syscall_validate_ptr 0x300000 (sizeof_SelectEvent A * 0x40000000)"
    using mult_2p30_bound [of "sizeof_SelectEvent A"]
    by (simp add: validate_no_wrap)
  have h: "syscall_validate_ptr 0x200000 (4 * 0x40000000)" "syscall_validate_ptr 0x400000 4"
    by (simp_all add: syscall_validate_ptr_def)
  have c: "sys_handle_select A K 0x200000 0x300000 0x40000000 0x400000 s =
      task_fshandle_select K 0x200000 0x300000 0x40000000 0x400000 s"
    unfolding sys_handle_select_def using e h by (simp only: simp_thms if_False)
  then show ?thesis
    by simp
qed

text \<open>
  The same run on the sample values: the underlying select is reached, as the call
  counter shows.
\<close>

theorem select_length_overflow_witness:
  "sys_handle_select sample_abi sample_tasking 0x200000 0x300000 0x40000000 0x400000
     sample_machine = (0, sample_machine\<lparr>kernel := 1\<rparr>)"
proof -
  have t: "task_fshandle_select sample_tasking 0x200000 0x300000 0x40000000 0x400000
      sample_machine = (0, sample_machine\<lparr>kernel := 1\<rparr>)"
    by (simp add: sample_tasking_def counted_def sample_machine_def)
  from select_length_overflow [of sample_abi sample_tasking sample_machine] t
  show ?thesis
    by simp
qed

text \<open>
  C4, as the code has it, for the handlers that detect a pointer-validation failure
  (launch, open, select, read, write, tell and stat are the ones that run the validator).
  On such a failure \<open>sys_process_launch\<close> returns
  the negated code \<open>-ERR_BAD_ADDRESS\<close>, which is negative, while the handle syscalls
  open, select, read, write, tell and stat return \<open>ERR_BAD_ADDRESS\<close> itself, which is
  positive (the enumerator being positive); in each case the state is unchanged. The
  dispatcher reads the two conventions apart: at or above \<open>SYS_HANDLE_OPEN\<close> a failure is
  a result other than \<open>ERR_SUCCESS\<close>, below it a negative result.
\<close>

theorem bad_address_codes:
  assumes pos: "0 < sint (ERR_BAD_ADDRESS A)"
  shows
   "(\<not> syscall_validate_ptr launchpad (sizeof_Launchpad A) \<longrightarrow>
       sint (fst (sys_process_launch A K launchpad s)) < 0 \<and>
       sys_process_launch A K launchpad s = (- ERR_BAD_ADDRESS A, s)) \<and>
    (\<not> syscall_validate_ptr handle 4 \<longrightarrow>
       0 < sint (fst (sys_handle_open A K handle path flags s)) \<and>
       sys_handle_open A K handle path flags s = (ERR_BAD_ADDRESS A, s)) \<and>
    (\<not> syscall_validate_ptr handles (4 * count) \<or>
     \<not> syscall_validate_ptr events (sizeof_SelectEvent A * count) \<or>
     \<not> syscall_validate_ptr selected 4 \<longrightarrow>
       0 < sint (fst (sys_handle_select A K handles events count selected s)) \<and>
       sys_handle_select A K handles events count selected s = (ERR_BAD_ADDRESS A, s)) \<and>
    (\<not> syscall_validate_ptr buffer sz \<or> \<not> syscall_validate_ptr xfer 4 \<longrightarrow>
       0 < sint (fst (sys_handle_read A K h buffer sz xfer s)) \<and>
       sys_handle_read A K h buffer sz xfer s = (ERR_BAD_ADDRESS A, s) \<and>
       0 < sint (fst (sys_handle_write A K h buffer sz xfer s)) \<and>
       sys_handle_write A K h buffer sz xfer s = (ERR_BAD_ADDRESS A, s)) \<and>
    (\<not> syscall_validate_ptr offset 4 \<longrightarrow>
       0 < sint (fst (sys_handle_tell A K h whence offset s)) \<and>
       sys_handle_tell A K h whence offset s = (ERR_BAD_ADDRESS A, s)) \<and>
    (\<not> syscall_validate_ptr state (sizeof_FileState A) \<longrightarrow>
       0 < sint (fst (sys_handle_stat A K h state s)) \<and>
       sys_handle_stat A K h state s = (ERR_BAD_ADDRESS A, s))"
  using pos sint_neg_of_pos [OF pos]
  by (simp add: sys_process_launch_def sys_handle_open_def sys_handle_select_def
      sys_handle_read_def sys_handle_write_def sys_handle_tell_def sys_handle_stat_def)

theorem bad_address_codes_witness:
  "0 < sint (ERR_BAD_ADDRESS sample_abi) \<and>
   \<not> syscall_validate_ptr 0 (sizeof_Launchpad sample_abi) \<and>
   \<not> syscall_validate_ptr 0 4 \<and>
   \<not> syscall_validate_ptr 0 (sizeof_FileState sample_abi) \<and>
   sint (fst (sys_process_launch sample_abi sample_tasking 0 sample_machine)) < 0 \<and>
   0 < sint (fst (sys_handle_open sample_abi sample_tasking 0 0 0 sample_machine)) \<and>
   0 < sint (fst (sys_handle_select sample_abi sample_tasking 0 0 1 0 sample_machine)) \<and>
   0 < sint (fst (sys_handle_read sample_abi sample_tasking 3 0 16 0 sample_machine)) \<and>
   0 < sint (fst (sys_handle_write sample_abi sample_tasking 3 0 16 0 sample_machine)) \<and>
   0 < sint (fst (sys_handle_tell sample_abi sample_tasking 3 0 0 sample_machine)) \<and>
   0 < sint (fst (sys_handle_stat sample_abi sample_tasking 3 0 sample_machine))"
proof -
  have pos: "0 < sint (ERR_BAD_ADDRESS sample_abi)"
    by (simp add: sample_abi_def)
  note c = bad_address_codes [OF pos, where K = sample_tasking and s = sample_machine
      and launchpad = 0 and handle = 0 and path = 0 and flags = 0
      and handles = 0 and events = 0 and count = 1 and selected = 0
      and buffer = 0 and sz = 16 and xfer = 0 and h = 3
      and offset = 0 and whence = 0 and state = 0]
  from pos c validate_null show ?thesis
    by blast
qed

text \<open>
  C4 as stated says that the handle syscalls return a negative bad-address code.
  \<open>sys_handle_open\<close> with the handle pointer 0, which fails validation, returns the
  positive enumerator.
\<close>

theorem handle_open_bad_address_counterexample:
  "\<not> syscall_validate_ptr 0 4 \<and>
   \<not> sint (fst (sys_handle_open sample_abi sample_tasking 0 0 0 sample_machine)) < 0"
  by (simp add: syscall_validate_ptr_def sys_handle_open_def sample_abi_def)

text \<open>
  C7 asks that the free syscall report the error of a rejected request. The code does
  not: \<open>sys_process_free\<close> returns 0, which is not negative, for every address, count and
  state, whatever \<open>task_memory_free\<close> did or returned.
\<close>

theorem free_reports_success:
  "fst (sys_process_free K addr count s) = 0 \<and>
   \<not> sint (fst (sys_process_free K addr count s)) < 0 \<and>
   snd (sys_process_free K addr count s) = snd (task_memory_free K addr count s)"
  by (simp add: sys_process_free_def)

lemma sample_free_zero_count:
  "sys_process_free sample_tasking 0 0 sample_machine = (0, sample_machine\<lparr>kernel := 1\<rparr>) \<and>
   fst (task_memory_free sample_tasking 0 0 sample_machine) = - 1"
  by (simp add: sys_process_free_def sample_tasking_def counted_def sample_machine_def)

text \<open>
  C3 asks that every handler validate its pointer arguments before any access. The code
  does not: \<open>sys_system_get_time\<close> called with the pointer 0, which the validator rejects
  for every length, stores the clock value at address 0 and returns \<open>-ERR_SUCCESS\<close>;
  \<open>sys_messaging_send\<close> and \<open>sys_handle_connect\<close> hand their pointers to the tasking
  layer as they come.
\<close>

theorem get_time_writes_unvalidated:
  "\<not> syscall_validate_ptr 0 n \<and>
   sys_system_get_time A K 0 s =
     (- ERR_SUCCESS A, s\<lparr>memory := (memory s)(0 := clock_now K s)\<rparr>) \<and>
   sys_messaging_send K event s = task_messaging_send K event s \<and>
   sys_handle_connect K handle path s = task_fshandle_connect K handle path s"
  by (simp add: syscall_validate_ptr_def sys_system_get_time_def sys_messaging_send_def
      sys_handle_connect_def)

section \<open>Properties of the dispatcher\<close>

lemma get_handler_out_of_range:
  "n < 0 \<or> int (length tbl) \<le> n \<Longrightarrow>
   syscall_get_handler tbl K n s = (None, [Error_unknown n (sheduler_running_id K s)])"
  by (auto simp add: syscall_get_handler_def)

lemma read_name_out_of_range:
  "n < 0 \<or> int (length names) \<le> n \<Longrightarrow>
   read_syscall_name names n = Inl (Names_out_of_bounds n)"
  by (auto simp add: read_syscall_name_def)

text \<open>
  An identifier inside the table and inside the names whose entry is unassigned: no
  handler is found, the state is unchanged, \<open>eax\<close> receives the not-implemented code and
  the run ends without a fault. The table of the source has no such entry.
\<close>

lemma dispatcher_unassigned_entry:
  assumes n: "n = to_Syscall A (eax ctx)"
    and r: "0 \<le> n" "n < int (length tbl)" "n < int (length names)"
    and e: "tbl ! nat n = None"
  shows "fst (syscall_get_handler tbl K n s) = None \<and>
         fst (syscall_dispatcher A names tbl K ctx s) =
           ctx\<lparr>eax := - ERR_FUNCTION_NOT_IMPLEMENTED A\<rparr> \<and>
         fst (snd (syscall_dispatcher A names tbl K ctx s)) = s \<and>
         snd (snd (snd (syscall_dispatcher A names tbl K ctx s))) = None"
proof -
  have g: "syscall_get_handler tbl K n s =
      (None, [Error_not_implemented n (sheduler_running_id K s)])"
    using r e by (simp add: syscall_get_handler_def)
  have rd: "read_syscall_name names n = Inr (names ! nat n)"
    using r by (simp add: read_syscall_name_def)
  show ?thesis
    using g rd by (simp add: syscall_dispatcher_def Let_def n [symmetric])
qed

text \<open>
  C2 asks that for every identifier outside the range from 0 up to \<open>__SYSCALL_COUNT\<close>
  the dispatcher invoke no handler and deliver the negative not-implemented code. The
  code finds no handler, leaves the state unchanged and stores
  \<open>-ERR_FUNCTION_NOT_IMPLEMENTED\<close> in \<open>eax\<close>, but then reaches a logging statement that
  reads \<^verbatim>\<open>syscall_names[syscall]\<close> with the same out-of-range identifier: the run stops at
  an out-of-bounds read instead of returning. This holds for every table, every array
  of names of the table's length and every identifier outside them, the enumerator
  \<open>ERR_FUNCTION_NOT_IMPLEMENTED\<close> being positive and \<open>ERR_SUCCESS\<close> not negative.
\<close>

theorem dispatcher_out_of_range:
  fixes A :: abi and ctx :: "'a processor_context_t_scheme"
  defines "n \<equiv> to_Syscall A (eax ctx)"
  assumes oob: "n < 0 \<or> int (length tbl) \<le> n"
    and len: "length names = length tbl"
    and fni: "0 < sint (ERR_FUNCTION_NOT_IMPLEMENTED A)"
    and succ: "\<not> sint (ERR_SUCCESS A) < 0"
  shows "fst (syscall_get_handler tbl K n s) = None \<and>
         syscall_dispatcher A names tbl K ctx s =
           (ctx\<lparr>eax := - ERR_FUNCTION_NOT_IMPLEMENTED A\<rparr>, s,
            [Error_unknown n (sheduler_running_id K s),
             Info_context (ebx ctx) (ecx ctx) (edx ctx) (esi ctx) (edi ctx)],
            Some (Names_out_of_bounds n))"
proof -
  have g: "syscall_get_handler tbl K n s = (None, [Error_unknown n (sheduler_running_id K s)])"
    using oob by (rule get_handler_out_of_range)
  have rd: "read_syscall_name names n = Inl (Names_out_of_bounds n)"
    using oob len by (intro read_name_out_of_range) simp
  have neg: "sint (- ERR_FUNCTION_NOT_IMPLEMENTED A) < 0"
    using fni by (rule sint_neg_of_pos)
  have ne: "- ERR_FUNCTION_NOT_IMPLEMENTED A \<noteq> ERR_SUCCESS A"
    using neg succ by auto
  have d: "syscall_dispatcher A names tbl K ctx s =
      (ctx\<lparr>eax := - ERR_FUNCTION_NOT_IMPLEMENTED A\<rparr>, s,
       [Error_unknown n (sheduler_running_id K s),
        Info_context (ebx ctx) (ecx ctx) (edx ctx) (esi ctx) (edi ctx)],
       Some (Names_out_of_bounds n))"
  proof (cases "SYS_HANDLE_OPEN A \<le> n")
    case True
    then show ?thesis
      using g rd ne by (simp add: syscall_dispatcher_def Let_def n_def [symmetric])
  next
    case False
    then show ?thesis
      using g rd neg by (simp add: syscall_dispatcher_def Let_def n_def [symmetric])
  qed
  from g d show ?thesis
    by simp
qed

text \<open>
  Identifier 1000 on the table of the source, which has 47 entries: no handler runs (the
  call counter stays at 0), \<open>eax\<close> holds -2, and the run stops at the read of
  \<^verbatim>\<open>syscall_names[1000]\<close>.
\<close>

theorem dispatcher_out_of_range_witness:
  "int (length sample_table) \<le> to_Syscall sample_abi (eax (sample_context 1000 0)) \<and>
   length sample_names = length sample_table \<and>
   0 < sint (ERR_FUNCTION_NOT_IMPLEMENTED sample_abi) \<and>
   \<not> sint (ERR_SUCCESS sample_abi) < 0 \<and>
   syscall_dispatcher sample_abi sample_names sample_table sample_tasking
     (sample_context 1000 0) sample_machine =
     (sample_context (- 2) 0, sample_machine,
      [Error_unknown 1000 7, Info_context 0 0 0 0 0], Some (Names_out_of_bounds 1000))"
proof -
  have n: "to_Syscall sample_abi (eax (sample_context 1000 0)) = 1000"
    by (simp add: to_Syscall_def sample_abi_def sample_context_def)
  have oob: "int (length sample_table) \<le> to_Syscall sample_abi (eax (sample_context 1000 0))"
    by (simp add: n sample_lengths)
  then have oob':
    "to_Syscall sample_abi (eax (sample_context 1000 0)) < 0 \<or>
     int (length sample_table) \<le> to_Syscall sample_abi (eax (sample_context 1000 0))"
    by (rule disjI2)
  have len: "length sample_names = length sample_table"
    by (simp add: sample_lengths)
  have fni: "0 < sint (ERR_FUNCTION_NOT_IMPLEMENTED sample_abi)"
    by (simp add: sample_abi_def)
  have succ: "\<not> sint (ERR_SUCCESS sample_abi) < 0"
    by (simp add: sample_abi_def)
  have v:
    "(sample_context 1000 0)\<lparr>eax := - ERR_FUNCTION_NOT_IMPLEMENTED sample_abi\<rparr> =
       sample_context (- 2) 0"
    "sheduler_running_id sample_tasking sample_machine = 7"
    "ebx (sample_context 1000 0) = 0" "ecx (sample_context 1000 0) = 0"
    "edx (sample_context 1000 0) = 0" "esi (sample_context 1000 0) = 0"
    "edi (sample_context 1000 0) = 0"
    by (simp_all add: sample_context_def sample_abi_def sample_tasking_def)
  note d = dispatcher_out_of_range [OF oob' len fni succ, of sample_tasking sample_machine]
  from d oob len fni succ show ?thesis
    by (simp add: v n)
qed

text \<open>
  C8 asks that the dispatcher log a failure line exactly when the identifier is in the
  handle range and the result is not success, or the identifier is below the handle
  range and the result is negative, and that this logging never alter the result or the
  control flow. Write \<open>n\<close> for the identifier, \<open>r\<close> for what the handler returned (or the
  not-implemented code and the unchanged state where there is no handler) and \<open>due\<close> for
  the condition of the claim on \<open>n\<close> and \<open>r\<close>. The context and the state are always those
  of \<open>r\<close>. For an identifier inside the array of names the run ends without a fault and
  the log holds a failure line, at most one, exactly when \<open>due\<close>. For an identifier outside
  the array no failure line is ever logged, and the run stops at the out-of-bounds read
  of \<^verbatim>\<open>syscall_names[syscall]\<close> exactly when \<open>due\<close>: there the logging statement does alter
  the control flow.
\<close>

theorem dispatcher_failure_log:
  fixes A :: abi and ctx :: "'a processor_context_t_scheme"
    and tbl :: "'k syscall_handler_t option list" and K :: "'k tasking"
    and s :: "'k machine" and names :: "string list"
  defines "n \<equiv> to_Syscall A (eax ctx)"
  defines "r \<equiv> (case fst (syscall_get_handler tbl K n s) of
                   Some h \<Rightarrow> h (ebx ctx) (ecx ctx) (edx ctx) (esi ctx) (edi ctx) s
                 | None \<Rightarrow> (- ERR_FUNCTION_NOT_IMPLEMENTED A, s))"
  defines "due \<equiv> (SYS_HANDLE_OPEN A \<le> n \<and> fst r \<noteq> ERR_SUCCESS A \<or>
                   n < SYS_HANDLE_OPEN A \<and> sint (fst r) < 0)"
  defines "out \<equiv> syscall_dispatcher A names tbl K ctx s"
  shows "fst out = ctx\<lparr>eax := fst r\<rparr> \<and> fst (snd out) = snd r \<and>
         (0 \<le> n \<and> n < int (length names) \<longrightarrow>
            snd (snd (snd out)) = None \<and>
            (filter is_returned (fst (snd (snd out))) \<noteq> []) = due \<and>
            length (filter is_returned (fst (snd (snd out)))) \<le> 1) \<and>
         (\<not> (0 \<le> n \<and> n < int (length names)) \<longrightarrow>
            filter is_returned (fst (snd (snd out))) = [] \<and>
            (snd (snd (snd out)) = Some (Names_out_of_bounds n)) = due)"
  unfolding n_def r_def due_def out_def
  by (auto simp add: syscall_dispatcher_def syscall_get_handler_def read_syscall_name_def
      Let_def split: prod.splits option.splits)

text \<open>
  On the table of the source: identifier 32 is \<open>sys_handle_open\<close>, which with the handle
  pointer 0 returns 1, not \<open>ERR_SUCCESS\<close>, and the run logs a failure line; identifier 1 is
  \<open>sys_process_launch\<close>, which with a valid launchpad returns 8, and the run logs none;
  identifier 1000 is outside the names, and the run stops at the out-of-bounds read.
\<close>

theorem dispatcher_failure_log_witness:
  "filter is_returned (fst (snd (snd (syscall_dispatcher sample_abi sample_names sample_table
     sample_tasking (sample_context 32 0) sample_machine)))) \<noteq> [] \<and>
   snd (snd (snd (syscall_dispatcher sample_abi sample_names sample_table
     sample_tasking (sample_context 32 0) sample_machine))) = None \<and>
   eax (fst (syscall_dispatcher sample_abi sample_names sample_table
     sample_tasking (sample_context 32 0) sample_machine)) = 1 \<and>
   filter is_returned (fst (snd (snd (syscall_dispatcher sample_abi sample_names sample_table
     sample_tasking (sample_context 1 0x200000) sample_machine)))) = [] \<and>
   snd (snd (snd (syscall_dispatcher sample_abi sample_names sample_table
     sample_tasking (sample_context 1 0x200000) sample_machine))) = None \<and>
   eax (fst (syscall_dispatcher sample_abi sample_names sample_table
     sample_tasking (sample_context 1 0x200000) sample_machine)) = 8 \<and>
   \<not> to_Syscall sample_abi (eax (sample_context 1000 0)) < int (length sample_names) \<and>
   snd (snd (snd (syscall_dispatcher sample_abi sample_names sample_table
     sample_tasking (sample_context 1000 0) sample_machine))) =
     Some (Names_out_of_bounds 1000)"
proof -
  have n32: "to_Syscall sample_abi (eax (sample_context 32 0)) = 32"
    and n1: "to_Syscall sample_abi (eax (sample_context 1 0x200000)) = 1"
    and n1000: "to_Syscall sample_abi (eax (sample_context 1000 0)) = 1000"
    by (simp_all add: to_Syscall_def sample_abi_def sample_context_def)
  have r32:
    "(case fst (syscall_get_handler sample_table sample_tasking 32 sample_machine) of
        Some h \<Rightarrow> h (ebx (sample_context 32 0)) (ecx (sample_context 32 0))
          (edx (sample_context 32 0)) (esi (sample_context 32 0)) (edi (sample_context 32 0))
          sample_machine
      | None \<Rightarrow> (- ERR_FUNCTION_NOT_IMPLEMENTED sample_abi, sample_machine)) =
     (1, sample_machine)"
    by (simp add: syscall_get_handler_def sample_table_def syscalls_def sample_context_def
        sys_handle_open_def syscall_validate_ptr_def sample_abi_def)
  have r1:
    "(case fst (syscall_get_handler sample_table sample_tasking 1 sample_machine) of
        Some h \<Rightarrow> h (ebx (sample_context 1 0x200000)) (ecx (sample_context 1 0x200000))
          (edx (sample_context 1 0x200000)) (esi (sample_context 1 0x200000))
          (edi (sample_context 1 0x200000)) sample_machine
      | None \<Rightarrow> (- ERR_FUNCTION_NOT_IMPLEMENTED sample_abi, sample_machine)) =
     (8, sample_machine\<lparr>kernel := 1\<rparr>)"
    by (simp add: syscall_get_handler_def sample_table_def syscalls_def sample_context_def
        sample_launch_valid)
  have r1000:
    "(case fst (syscall_get_handler sample_table sample_tasking 1000 sample_machine) of
        Some h \<Rightarrow> h (ebx (sample_context 1000 0)) (ecx (sample_context 1000 0))
          (edx (sample_context 1000 0)) (esi (sample_context 1000 0))
          (edi (sample_context 1000 0)) sample_machine
      | None \<Rightarrow> (- ERR_FUNCTION_NOT_IMPLEMENTED sample_abi, sample_machine)) =
     (- 2, sample_machine)"
    by (simp add: syscall_get_handler_def sample_lengths sample_abi_def)
  note l32 = dispatcher_failure_log [of sample_abi sample_names sample_table sample_tasking
      "sample_context 32 0" sample_machine, unfolded n32 r32]
  note l1 = dispatcher_failure_log [of sample_abi sample_names sample_table sample_tasking
      "sample_context 1 0x200000" sample_machine, unfolded n1 r1]
  note l1000 = dispatcher_failure_log [of sample_abi sample_names sample_table sample_tasking
      "sample_context 1000 0" sample_machine, unfolded n1000 r1000]
  have c: "SYS_HANDLE_OPEN sample_abi = 32" "ERR_SUCCESS sample_abi = 0"
    by (simp_all add: sample_abi_def)
  from l32 have a32:
    "filter is_returned (fst (snd (snd (syscall_dispatcher sample_abi sample_names sample_table
       sample_tasking (sample_context 32 0) sample_machine)))) \<noteq> [] \<and>
     snd (snd (snd (syscall_dispatcher sample_abi sample_names sample_table
       sample_tasking (sample_context 32 0) sample_machine))) = None \<and>
     eax (fst (syscall_dispatcher sample_abi sample_names sample_table
       sample_tasking (sample_context 32 0) sample_machine)) = 1"
    by (simp add: c sample_lengths)
  from l1 have a1:
    "filter is_returned (fst (snd (snd (syscall_dispatcher sample_abi sample_names sample_table
       sample_tasking (sample_context 1 0x200000) sample_machine)))) = [] \<and>
     snd (snd (snd (syscall_dispatcher sample_abi sample_names sample_table
       sample_tasking (sample_context 1 0x200000) sample_machine))) = None \<and>
     eax (fst (syscall_dispatcher sample_abi sample_names sample_table
       sample_tasking (sample_context 1 0x200000) sample_machine)) = 8"
    by (simp add: c sample_lengths)
  from l1000 have a1000:
    "snd (snd (snd (syscall_dispatcher sample_abi sample_names sample_table
       sample_tasking (sample_context 1000 0) sample_machine))) =
       Some (Names_out_of_bounds 1000)"
    by (simp add: c sample_lengths)
  from a32 a1 a1000 show ?thesis
    by (simp add: n1000 sample_lengths)
qed

text \<open>
  C10. For every incoming context the dispatcher changes only \<open>eax\<close>: \<open>ebx\<close>, \<open>ecx\<close>,
  \<open>edx\<close>, \<open>esi\<close>, \<open>edi\<close> and every other field of the context hold the same values after
  dispatch as before, whichever handler ran and whatever was logged.
\<close>

theorem dispatcher_frame:
  "ebx (fst (syscall_dispatcher A names tbl K ctx s)) = ebx ctx \<and>
   ecx (fst (syscall_dispatcher A names tbl K ctx s)) = ecx ctx \<and>
   edx (fst (syscall_dispatcher A names tbl K ctx s)) = edx ctx \<and>
   esi (fst (syscall_dispatcher A names tbl K ctx s)) = esi ctx \<and>
   edi (fst (syscall_dispatcher A names tbl K ctx s)) = edi ctx \<and>
   processor_context_t.more (fst (syscall_dispatcher A names tbl K ctx s)) =
     processor_context_t.more ctx \<and>
   fst (syscall_dispatcher A names tbl K ctx s) =
     ctx\<lparr>eax := eax (fst (syscall_dispatcher A names tbl K ctx s))\<rparr>"
  by (simp add: syscall_dispatcher_def Let_def split: prod.splits option.splits)

end
